theory Spec2Isabelle
  imports Complex_Main
begin

section \<open>Numbers\<close>

text \<open>
  Every number of the program is a JavaScript number. The model keeps the special values
  the code tests for or can produce (\<open>Infinity\<close>, \<open>-Infinity\<close>, \<open>NaN\<close>) and takes the
  arithmetic on finite numbers as exact: a finite number is a real, there is one zero, and
  no operation rounds, overflows or underflows. Division by zero, the square root of a
  negative number and the comparisons with \<open>NaN\<close> behave as JavaScript's do.

  The general theorems below do not rest on that exactness: they use the comparisons, the
  special values, that multiplication commutes, and that \<open>1 / 1 = 1\<close> and \<open>1 * x = x\<close>.
  Sums, products and square roots of finite numbers are computed only at concrete inputs.
\<close>

datatype jsnum = Fin real | PInf | NInf | NaN

fun js_neg :: "jsnum \<Rightarrow> jsnum" where
  "js_neg (Fin a) = Fin (- a)"
| "js_neg PInf = NInf"
| "js_neg NInf = PInf"
| "js_neg NaN = NaN"

fun js_add :: "jsnum \<Rightarrow> jsnum \<Rightarrow> jsnum" where
  "js_add (Fin a) (Fin b) = Fin (a + b)"
| "js_add NaN _ = NaN"
| "js_add _ NaN = NaN"
| "js_add PInf NInf = NaN"
| "js_add NInf PInf = NaN"
| "js_add PInf _ = PInf"
| "js_add _ PInf = PInf"
| "js_add NInf _ = NInf"
| "js_add _ NInf = NInf"

definition js_sub :: "jsnum \<Rightarrow> jsnum \<Rightarrow> jsnum" where
  "js_sub a b = js_add a (js_neg b)"

text \<open>The product of an infinity and a number of the given sign.\<close>

definition signed_inf :: "bool \<Rightarrow> real \<Rightarrow> jsnum" where
  "signed_inf positive a =
     (if a = 0 then NaN else if (0 < a) = positive then PInf else NInf)"

fun js_mul :: "jsnum \<Rightarrow> jsnum \<Rightarrow> jsnum" where
  "js_mul (Fin a) (Fin b) = Fin (a * b)"
| "js_mul NaN _ = NaN"
| "js_mul _ NaN = NaN"
| "js_mul PInf (Fin b) = signed_inf True b"
| "js_mul NInf (Fin b) = signed_inf False b"
| "js_mul (Fin a) PInf = signed_inf True a"
| "js_mul (Fin a) NInf = signed_inf False a"
| "js_mul PInf PInf = PInf"
| "js_mul NInf NInf = PInf"
| "js_mul PInf NInf = NInf"
| "js_mul NInf PInf = NInf"

fun js_div :: "jsnum \<Rightarrow> jsnum \<Rightarrow> jsnum" where
  "js_div (Fin a) (Fin b) = (if b = 0 then signed_inf True a else Fin (a / b))"
| "js_div NaN _ = NaN"
| "js_div _ NaN = NaN"
| "js_div (Fin a) PInf = Fin 0"
| "js_div (Fin a) NInf = Fin 0"
| "js_div PInf (Fin b) = (if 0 \<le> b then PInf else NInf)"
| "js_div NInf (Fin b) = (if 0 \<le> b then NInf else PInf)"
| "js_div PInf PInf = NaN"
| "js_div PInf NInf = NaN"
| "js_div NInf PInf = NaN"
| "js_div NInf NInf = NaN"

fun js_sqrt :: "jsnum \<Rightarrow> jsnum" where
  "js_sqrt (Fin a) = (if a < 0 then NaN else Fin (sqrt a))"
| "js_sqrt PInf = PInf"
| "js_sqrt NInf = NaN"
| "js_sqrt NaN = NaN"

fun js_abs :: "jsnum \<Rightarrow> jsnum" where
  "js_abs (Fin a) = Fin \<bar>a\<bar>"
| "js_abs PInf = PInf"
| "js_abs NInf = PInf"
| "js_abs NaN = NaN"

fun js_lt :: "jsnum \<Rightarrow> jsnum \<Rightarrow> bool" where
  "js_lt (Fin a) (Fin b) = (a < b)"
| "js_lt NaN _ = False"
| "js_lt _ NaN = False"
| "js_lt _ NInf = False"
| "js_lt PInf _ = False"
| "js_lt NInf _ = True"
| "js_lt _ PInf = True"

fun js_le :: "jsnum \<Rightarrow> jsnum \<Rightarrow> bool" where
  "js_le (Fin a) (Fin b) = (a \<le> b)"
| "js_le NaN _ = False"
| "js_le _ NaN = False"
| "js_le NInf _ = True"
| "js_le _ PInf = True"
| "js_le _ NInf = False"
| "js_le PInf _ = False"

definition js_gt :: "jsnum \<Rightarrow> jsnum \<Rightarrow> bool" where
  "js_gt a b = js_lt b a"

definition js_ge :: "jsnum \<Rightarrow> jsnum \<Rightarrow> bool" where
  "js_ge a b = js_le b a"

text \<open>\<open>a != b\<close> on numbers: \<open>NaN\<close> differs from everything, itself included.\<close>

definition js_ne :: "jsnum \<Rightarrow> jsnum \<Rightarrow> bool" where
  "js_ne a b = (a = NaN \<or> b = NaN \<or> a \<noteq> b)"

text \<open>\<open>Math.min\<close> and \<open>Math.max\<close> of two numbers: \<open>NaN\<close> when either is.\<close>

definition js_min :: "jsnum \<Rightarrow> jsnum \<Rightarrow> jsnum" where
  "js_min a b = (if a = NaN \<or> b = NaN then NaN else if js_le a b then a else b)"

definition js_max :: "jsnum \<Rightarrow> jsnum \<Rightarrow> jsnum" where
  "js_max a b = (if a = NaN \<or> b = NaN then NaN else if js_le a b then b else a)"

text \<open>\<open>x || d\<close> on a number \<open>x\<close>: zero and \<open>NaN\<close> are falsy.\<close>

definition js_or :: "jsnum \<Rightarrow> jsnum \<Rightarrow> jsnum" where
  "js_or a d = (if a = Fin 0 \<or> a = NaN then d else a)"

text \<open>A finite number: not an infinity and not \<open>NaN\<close>.\<close>

fun js_isFinite :: "jsnum \<Rightarrow> bool" where
  "js_isFinite (Fin a) = True"
| "js_isFinite _ = False"

section \<open>Vector3\<close>

text \<open>
  The fields \<open>x\<close>, \<open>y\<close>, \<open>z\<close> of a \<open>Vector3\<close> are \<open>vx\<close>, \<open>vy\<close>, \<open>vz\<close> here.
  \<open>new_Vector3\<close> is the constructor: it replaces a falsy component by 0. Every method
  builds its result with the constructor, as the source does; a record written out
  directly stands for an object whose fields were assigned afterwards.
\<close>

record Vector3 =
  vx :: jsnum
  vy :: jsnum
  vz :: jsnum

definition new_Vector3 :: "jsnum \<Rightarrow> jsnum \<Rightarrow> jsnum \<Rightarrow> Vector3" where
  "new_Vector3 a b c = \<lparr>vx = js_or a (Fin 0), vy = js_or b (Fin 0), vz = js_or c (Fin 0)\<rparr>"

definition Vector3_add :: "Vector3 \<Rightarrow> Vector3 \<Rightarrow> Vector3" where
  "Vector3_add this v =
     new_Vector3 (js_add (vx this) (vx v)) (js_add (vy this) (vy v)) (js_add (vz this) (vz v))"

definition Vector3_times :: "Vector3 \<Rightarrow> jsnum \<Rightarrow> Vector3" where
  "Vector3_times this scalar =
     new_Vector3 (js_mul scalar (vx this)) (js_mul scalar (vy this)) (js_mul scalar (vz this))"

definition Vector3_subtract :: "Vector3 \<Rightarrow> Vector3 \<Rightarrow> Vector3" where
  "Vector3_subtract this v = Vector3_add this (Vector3_times v (Fin (- 1)))"

definition Vector3_divide :: "Vector3 \<Rightarrow> jsnum \<Rightarrow> Vector3" where
  "Vector3_divide this scalar = Vector3_times this (js_div (Fin 1) scalar)"

definition Vector3_cross :: "Vector3 \<Rightarrow> Vector3 \<Rightarrow> Vector3" where
  "Vector3_cross this v =
     new_Vector3
       (js_sub (js_mul (vy this) (vz v)) (js_mul (vz this) (vy v)))
       (js_sub (js_mul (vz this) (vx v)) (js_mul (vx this) (vz v)))
       (js_sub (js_mul (vx this) (vy v)) (js_mul (vy this) (vx v)))"

definition Vector3_inner :: "Vector3 \<Rightarrow> Vector3 \<Rightarrow> jsnum" where
  "Vector3_inner this v =
     js_add (js_add (js_mul (vx this) (vx v)) (js_mul (vy this) (vy v)))
            (js_mul (vz this) (vz v))"

definition Vector3_norm :: "Vector3 \<Rightarrow> jsnum" where
  "Vector3_norm this = js_sqrt (Vector3_inner this this)"

definition Vector3_normalize :: "Vector3 \<Rightarrow> Vector3" where
  "Vector3_normalize this =
     (let norm = Vector3_norm this
      in if js_ne norm (Fin 0) then Vector3_divide this (Vector3_norm this) else this)"

section \<open>Ray\<close>

record Ray =
  origin :: Vector3
  direction :: Vector3

definition new_Ray :: "Vector3 \<Rightarrow> Vector3 \<Rightarrow> Ray" where
  "new_Ray org dir = \<lparr>origin = org, direction = Vector3_normalize dir\<rparr>"

definition Ray_at :: "Ray \<Rightarrow> jsnum \<Rightarrow> Vector3" where
  "Ray_at this t = Vector3_add (origin this) (Vector3_times (direction this) t)"

section \<open>Materials, lights, primitives and the scene\<close>

record Material =
  color :: Vector3
  diffuse :: jsnum
  specular :: jsnum
  ambient :: jsnum

text \<open>
  A light's \<open>position\<close> and \<open>id\<close> are \<open>light_position\<close> and \<open>light_id\<close>; a primitive's
  \<open>id\<close> is \<open>obj_id\<close>.
\<close>

record Light =
  light_position :: Vector3
  intensity :: jsnum
  light_id :: string

datatype Primitive =
    Sphere (position: Vector3) (radius: jsnum) (material: Material) (obj_id: string)
  | Plane (position: Vector3) (normalVec: Vector3) (material: Material) (obj_id: string)

text \<open>
  The global \<open>scene\<close> is passed to every function that reads it. Of \<open>scene.camera\<close> and
  \<open>scene.image\<close> (here \<open>image_cfg\<close>) the record keeps the fields that the ray tracing
  functions read: \<open>background\<close> and \<open>zero_tol\<close>.
\<close>

record Camera =
  background :: Vector3

record Image =
  zero_tol :: jsnum

record Scene =
  lights :: "Light list"
  objects :: "Primitive list"
  camera :: Camera
  image_cfg :: Image

text \<open>
  A reference to a primitive is its index in \<open>scene.objects\<close>: the list holds every
  primitive once, so two references are the same object exactly when the indices are
  equal. \<open>null\<close> is \<open>None\<close>. The field \<open>t\<close> of an intersection is \<open>tval\<close>.
\<close>

record Intersection =
  object :: "nat option"
  tval :: jsnum

definition deref :: "Scene \<Rightarrow> nat \<Rightarrow> Primitive option" where
  "deref sc k = (if k < length (objects sc) then Some (objects sc ! k) else None)"

section \<open>Intersection of a ray with a primitive\<close>

definition Sphere_normal :: "Primitive \<Rightarrow> Vector3 \<Rightarrow> Vector3" where
  "Sphere_normal this pos = Vector3_normalize (Vector3_subtract pos (position this))"

definition Sphere_checkIntersection :: "Scene \<Rightarrow> Primitive \<Rightarrow> Ray \<Rightarrow> jsnum" where
  "Sphere_checkIntersection sc this ray =
     (let A = origin ray;
          r = direction ray;
          O' = Vector3_subtract A (position this);
          a = Fin 1;
          b = js_mul (Fin 2) (Vector3_inner O' r);
          c = js_sub (Vector3_inner O' O') (js_mul (radius this) (radius this));
          discriminant = js_sub (js_mul b b) (js_mul (js_mul (Fin 4) a) c)
      in if js_ge discriminant (Fin 0) then
           (let sqrtDisc = js_sqrt discriminant;
                num = js_div (if js_lt b (Fin 0) then js_sub (js_neg b) sqrtDisc
                              else js_add (js_neg b) sqrtDisc) (Fin 2);
                t_0 = js_div num a;
                t_1 = js_div c num;
                t_0' = js_min t_0 t_1;
                t_1' = js_max t_0' t_1
            in if js_ge t_1' (zero_tol (image_cfg sc))
               then (if js_lt t_0' (Fin 0) then t_1' else t_0')
               else PInf)
         else PInf)"

definition Plane_normal :: "Primitive \<Rightarrow> Vector3 \<Rightarrow> Vector3" where
  "Plane_normal this pos = normalVec this"

text \<open>
  \<open>Plane.checkIntersection\<close> calls \<open>this.normal()\<close> without an argument: \<open>pos\<close> is
  \<open>undefined\<close> there, and \<open>Plane.normal\<close> does not read it.
\<close>

definition Plane_checkIntersection :: "Scene \<Rightarrow> Primitive \<Rightarrow> Ray \<Rightarrow> jsnum" where
  "Plane_checkIntersection sc this ray =
     (let A = origin ray;
          b = direction ray;
          normal = Plane_normal this undefined;
          denominator = Vector3_inner normal b
      in if js_lt (js_abs denominator) (zero_tol (image_cfg sc)) then PInf
         else (let t = js_div (Vector3_inner (Vector3_subtract (position this) A) normal)
                              denominator
               in if js_gt t (zero_tol (image_cfg sc)) then t else PInf))"

text \<open>The method call \<open>object.normal(p)\<close> and \<open>object.checkIntersection(ray)\<close>.\<close>

definition Primitive_normal :: "Primitive \<Rightarrow> Vector3 \<Rightarrow> Vector3" where
  "Primitive_normal this pos =
     (case this of
        Sphere _ _ _ _ \<Rightarrow> Sphere_normal this pos
      | Plane _ _ _ _ \<Rightarrow> Plane_normal this pos)"

definition Primitive_checkIntersection :: "Scene \<Rightarrow> Primitive \<Rightarrow> Ray \<Rightarrow> jsnum" where
  "Primitive_checkIntersection sc this ray =
     (case this of
        Sphere _ _ _ _ \<Rightarrow> Sphere_checkIntersection sc this ray
      | Plane _ _ _ _ \<Rightarrow> Plane_checkIntersection sc this ray)"

section \<open>The closest intersection and the shadow test\<close>

text \<open>
  The loop of \<open>closestIntersection\<close> from index \<open>i\<close> on: \<open>objs\<close> are the primitives still
  to visit and \<open>intersection\<close> is the best one so far.
\<close>

fun closestIntersection_loop ::
  "Scene \<Rightarrow> Ray \<Rightarrow> nat \<Rightarrow> Primitive list \<Rightarrow> Intersection \<Rightarrow> Intersection" where
  "closestIntersection_loop sc ray i [] intersection = intersection"
| "closestIntersection_loop sc ray i (obj # objs) intersection =
     (let intersectSolution = Primitive_checkIntersection sc obj ray
      in closestIntersection_loop sc ray (Suc i) objs
           (if js_lt intersectSolution PInf \<and> js_gt (tval intersection) intersectSolution
            then \<lparr>object = Some i, tval = intersectSolution\<rparr>
            else intersection))"

definition closestIntersection :: "Scene \<Rightarrow> Ray \<Rightarrow> Intersection" where
  "closestIntersection sc ray =
     closestIntersection_loop sc ray 0 (objects sc) \<lparr>object = None, tval = PInf\<rparr>"

definition Light_visible :: "Scene \<Rightarrow> Light \<Rightarrow> Vector3 \<Rightarrow> nat \<Rightarrow> bool" where
  "Light_visible sc this pos obj =
     (let intersection =
            closestIntersection sc
              (new_Ray (light_position this) (Vector3_subtract pos (light_position this)))
      in object intersection = Some obj
         \<and> js_gt (tval intersection) (js_neg (zero_tol (image_cfg sc))))"

section \<open>Random vectors\<close>

text \<open>
  The values that \<open>Math.random()\<close> returns, in the order of the calls, are a list of reals:
  each call takes the head. \<open>Vector3.random\<close> loops until a vector is accepted; when the
  list ends before that, the model has no result (\<open>None\<close>).
\<close>

type_synonym draws = "real list"

definition randBetween :: "jsnum \<Rightarrow> jsnum \<Rightarrow> real \<Rightarrow> jsnum" where
  "randBetween lo hi u = js_add (js_mul (Fin u) (js_sub hi lo)) lo"

fun Vector3_random :: "jsnum \<Rightarrow> jsnum \<Rightarrow> draws \<Rightarrow> (Vector3 \<times> draws) option" where
  "Vector3_random lo hi (u1 # u2 # u3 # rest) =
     (let vec = new_Vector3 (randBetween lo hi u1) (randBetween lo hi u2) (randBetween lo hi u3)
      in if js_ge (Vector3_norm vec) (Fin 1) then Vector3_random lo hi rest
         else Some (vec, rest))"
| "Vector3_random lo hi _ = None"

declare Vector3_random.simps [simp del]

section \<open>Shading\<close>

definition Material_reflect :: "Vector3 \<Rightarrow> Vector3 \<Rightarrow> Vector3" where
  "Material_reflect v normal =
     Vector3_subtract v (Vector3_times normal (js_mul (Fin 2) (Vector3_inner normal v)))"

text \<open>
  The loop over the lights in \<open>computeColor\<close>: one step adds the Lambertian term of a
  visible light to \<open>lambertianAmount\<close>.
\<close>

definition lights_step :: "Scene \<Rightarrow> Vector3 \<Rightarrow> nat \<Rightarrow> Vector3 \<Rightarrow> jsnum \<Rightarrow> Light \<Rightarrow> jsnum" where
  "lights_step sc rayIntPoint obj surfaceNormal lambertianAmount light =
     (if Light_visible sc light rayIntPoint obj then
        (let L = js_mul (Vector3_inner
                    (Vector3_normalize (Vector3_subtract (light_position light) rayIntPoint))
                    surfaceNormal) (intensity light)
         in js_add lambertianAmount (js_max L (Fin 0)))
      else lambertianAmount)"

definition lights_loop :: "Scene \<Rightarrow> Vector3 \<Rightarrow> nat \<Rightarrow> Vector3 \<Rightarrow> jsnum" where
  "lights_loop sc rayIntPoint obj surfaceNormal =
     foldl (lights_step sc rayIntPoint obj surfaceNormal) (Fin 0) (lights sc)"

text \<open>
  An evaluation ends with a colour and the draws left, or fails: with a \<open>TypeError\<close> when
  \<open>computeColor\<close> is given an intersection without an object (\<open>null\<close>, or an index
  that names no primitive of the scene), or without a result when the draws end inside
  \<open>Vector3.random\<close>.
\<close>

datatype failure = TypeError | Draws_exhausted

type_synonym outcome = "failure + Vector3 \<times> draws"

text \<open>
  \<open>depth\<close> is an integer. In \<open>computeColor\<close> the sum that \<open>color.add\<close> returns is
  \<open>blended\<close>, which nothing reads: \<open>add\<close> returns a new vector and the statement drops it.
  \<open>Material.scatter\<close> does not read its material.
\<close>

function traceRay :: "Scene \<Rightarrow> Ray \<Rightarrow> int \<Rightarrow> draws \<Rightarrow> outcome"
  and computeColor :: "Scene \<Rightarrow> Ray \<Rightarrow> Intersection \<Rightarrow> int \<Rightarrow> draws \<Rightarrow> outcome"
  and Material_scatter :: "Scene \<Rightarrow> Ray \<Rightarrow> Intersection \<Rightarrow> int \<Rightarrow> draws \<Rightarrow> outcome"
where
  "traceRay sc ray depth ds =
     (let intersection = closestIntersection sc ray
      in if object intersection = None then Inr (background (camera sc), ds)
         else computeColor sc ray intersection depth ds)"
| "computeColor sc ray intersection depth ds =
     (case object intersection of
        None \<Rightarrow> Inl TypeError
      | Some objref \<Rightarrow>
     (case deref sc objref of
        None \<Rightarrow> Inl TypeError
      | Some obj \<Rightarrow>
          (let col = color (material obj);
               reflection = new_Vector3 (Fin 0) (Fin 0) (Fin 0);
               rayIntPoint = Ray_at ray (tval intersection);
               surfaceNormal = Primitive_normal obj rayIntPoint;
               depth' = depth - 1
           in if depth' < 1 then Inr (reflection, ds)
              else
                (let lambertianScale = diffuse (material obj)
                 in case (if js_gt lambertianScale (Fin 0) then
                            (let lambertianAmount =
                                   js_min (lights_loop sc rayIntPoint objref surfaceNormal)
                                          (Fin 1)
                             in case Material_scatter sc ray intersection depth' ds of
                                  Inl e \<Rightarrow> Inl e
                                | Inr (scattered, ds') \<Rightarrow>
                                    (let blended = Vector3_add col scattered
                                     in Inr (lambertianAmount, ds')))
                          else Inr (Fin 0, ds)) of
                      Inl e \<Rightarrow> Inl e
                    | Inr (lambertianAmount, ds1) \<Rightarrow>
                        (let specularScale = specular (material obj)
                         in case (if js_gt specularScale (Fin 0) then
                                    (let surfaceRay =
                                           new_Ray rayIntPoint
                                             (Material_reflect (direction ray) surfaceNormal)
                                     in case traceRay sc surfaceRay depth' ds1 of
                                          Inl e \<Rightarrow> Inl e
                                        | Inr (traced, ds2) \<Rightarrow>
                                            Inr (Vector3_times traced specularScale, ds2))
                                  else Inr (reflection, ds1)) of
                              Inl e \<Rightarrow> Inl e
                            | Inr (reflection', ds2) \<Rightarrow>
                                Inr (Vector3_add
                                       (Vector3_add reflection'
                                          (Vector3_times col
                                             (js_mul lambertianAmount lambertianScale)))
                                       (Vector3_times col (ambient (material obj))),
                                     ds2))))))"
| "Material_scatter sc ray intersection depth ds =
     (case object intersection of
        None \<Rightarrow> Inl TypeError
      | Some objref \<Rightarrow>
     (case deref sc objref of
        None \<Rightarrow> Inl TypeError
      | Some obj \<Rightarrow>
          (let p = Ray_at ray (tval intersection);
               hitNormal = Vector3_times (Primitive_normal obj p) (Fin (- 1))
           in case Vector3_random (Fin (- 1)) (Fin 1) ds of
                None \<Rightarrow> Inl Draws_exhausted
              | Some (rv, ds') \<Rightarrow>
                  (let targ = Vector3_add hitNormal rv;
                       r = new_Ray p targ
                   in traceRay sc r depth ds'))))"
  by pat_completeness auto
termination
  by (relation "measure (\<lambda>x. case x of
          Inl (sc, ray, depth, ds) \<Rightarrow> 3 * nat depth + 1
        | Inr (Inl (sc, ray, intersection, depth, ds)) \<Rightarrow> 3 * nat depth
        | Inr (Inr (sc, ray, intersection, depth, ds)) \<Rightarrow> 3 * nat depth + 2)")
     auto

declare traceRay.simps [simp del] computeColor.simps [simp del] Material_scatter.simps [simp del]

section \<open>Draws that suffice\<close>

text \<open>
  \<open>Vector3.random(-1, 1)\<close> takes the draws three at a time and returns at the first
  triple that it accepts. \<open>accepts\<close> is its test on one triple, and \<open>accepted_triples\<close>
  counts the triples of a list that pass it. \<open>samples_needed n\<close> bounds the vectors that an
  evaluation asks for when \<open>depth - 1\<close> is at most \<open>n\<close>: one for the scattered ray and
  those of the two rays traced one level down. \<open>returns_within n ds out\<close>: started with
  the draws \<open>ds\<close>, the evaluation returned a colour and used at most \<open>n\<close> accepted triples.
\<close>

definition accepts :: "real \<Rightarrow> real \<Rightarrow> real \<Rightarrow> bool" where
  "accepts u1 u2 u3 =
     (\<not> js_ge (Vector3_norm (new_Vector3 (randBetween (Fin (- 1)) (Fin 1) u1)
                                (randBetween (Fin (- 1)) (Fin 1) u2)
                                (randBetween (Fin (- 1)) (Fin 1) u3))) (Fin 1))"

fun accepted_triples :: "draws \<Rightarrow> nat" where
  "accepted_triples (u1 # u2 # u3 # rest) =
     (if accepts u1 u2 u3 then 1 else 0) + accepted_triples rest"
| "accepted_triples _ = 0"

fun samples_needed :: "nat \<Rightarrow> nat" where
  "samples_needed 0 = 0"
| "samples_needed (Suc n) = 1 + 2 * samples_needed n"

definition returns_within :: "nat \<Rightarrow> draws \<Rightarrow> outcome \<Rightarrow> bool" where
  "returns_within n ds out =
     (\<exists>c rest. out = Inr (c, rest) \<and> accepted_triples rest \<le> accepted_triples ds
        \<and> accepted_triples ds \<le> accepted_triples rest + n)"

section \<open>The sphere intersection in the words of the specification\<close>

text \<open>
  The procedure that the specification describes for a sphere of centre \<open>centre\<close> and
  radius \<open>r\<close>: the two candidate roots are ordered, \<open>lo\<close> the smaller and \<open>hi\<close> the
  larger. It is compared with \<open>Sphere_checkIntersection\<close> below.
\<close>

definition spec_Sphere_intersect :: "jsnum \<Rightarrow> Vector3 \<Rightarrow> jsnum \<Rightarrow> Ray \<Rightarrow> jsnum" where
  "spec_Sphere_intersect eps centre r ray =
     (let O' = Vector3_subtract (origin ray) centre;
          a = Fin 1;
          b = js_mul (Fin 2) (Vector3_inner O' (direction ray));
          c = js_sub (Vector3_inner O' O') (js_mul r r);
          delta = js_sub (js_mul b b) (js_mul (js_mul (Fin 4) a) c)
      in if js_lt delta (Fin 0) then PInf
         else (let num = js_div (if js_lt b (Fin 0) then js_sub (js_neg b) (js_sqrt delta)
                                 else js_add (js_neg b) (js_sqrt delta)) (Fin 2);
                   t0 = js_div num a;
                   t1 = js_div c num;
                   lo = js_min t0 t1;
                   hi = js_max t0 t1
               in if js_ge hi eps then (if js_ge lo (Fin 0) then lo else hi) else PInf))"

section \<open>Example scenes\<close>

text \<open>
  A floor (the plane \<open>y = 0\<close>), a ball of radius 1 above it and a light above the ball;
  rays that are used as concrete inputs below.
\<close>

definition top_light :: Light where
  "top_light = \<lparr>light_position = \<lparr>vx = Fin 0, vy = Fin 4, vz = Fin 0\<rparr>, intensity = Fin 1,
                 light_id = ''top''\<rparr>"

definition floor_plane :: Primitive where
  "floor_plane =
     Plane \<lparr>vx = Fin 0, vy = Fin 0, vz = Fin 0\<rparr> \<lparr>vx = Fin 0, vy = Fin 1, vz = Fin 0\<rparr>
       \<lparr>color = \<lparr>vx = Fin 10, vy = Fin 20, vz = Fin 30\<rparr>, diffuse = Fin 1,
        specular = Fin 0, ambient = Fin 1\<rparr> ''floor''"

definition ball :: Primitive where
  "ball =
     Sphere \<lparr>vx = Fin 0, vy = Fin 2, vz = Fin 0\<rparr> (Fin 1)
       \<lparr>color = \<lparr>vx = Fin 200, vy = Fin 0, vz = Fin 0\<rparr>, diffuse = Fin 0,
        specular = Fin 0, ambient = Fin 1\<rparr> ''ball''"

definition shadow_scene :: Scene where
  "shadow_scene =
     \<lparr>lights = [top_light],
      objects = [floor_plane, ball],
      camera = \<lparr>background = \<lparr>vx = Fin 100, vy = Fin 100, vz = Fin 100\<rparr>\<rparr>,
      image_cfg = \<lparr>zero_tol = Fin (1 / 1000)\<rparr>\<rparr>"

definition down_ray :: Ray where
  "down_ray = \<lparr>origin = \<lparr>vx = Fin 0, vy = Fin 4, vz = Fin 0\<rparr>,
               direction = \<lparr>vx = Fin 0, vy = Fin (- 1), vz = Fin 0\<rparr>\<rparr>"

definition twin_scene :: Scene where
  "twin_scene = shadow_scene\<lparr>objects := [floor_plane, floor_plane]\<rparr>"

definition cam_ray :: Ray where
  "cam_ray = \<lparr>origin = \<lparr>vx = Fin 3, vy = Fin 4, vz = Fin 0\<rparr>,
              direction = \<lparr>vx = Fin (- 3 / 5), vy = Fin (- 4 / 5), vz = Fin 0\<rparr>\<rparr>"

definition miss_ray :: Ray where
  "miss_ray = \<lparr>origin = \<lparr>vx = Fin 5, vy = Fin 4, vz = Fin 0\<rparr>,
               direction = \<lparr>vx = Fin 0, vy = Fin 1, vz = Fin 0\<rparr>\<rparr>"

definition bounce_ray :: Ray where
  "bounce_ray = \<lparr>origin = \<lparr>vx = Fin 0, vy = Fin 0, vz = Fin 0\<rparr>,
                 direction = \<lparr>vx = Fin 0, vy = Fin (- 1), vz = Fin 0\<rparr>\<rparr>"

definition dome :: Primitive where
  "dome =
     Sphere \<lparr>vx = Fin 0, vy = Fin 0, vz = Fin 0\<rparr> (Fin 2)
       \<lparr>color = \<lparr>vx = Fin 50, vy = Fin 50, vz = Fin 50\<rparr>, diffuse = Fin 0,
        specular = Fin 0, ambient = Fin 1\<rparr> ''dome''"

definition inside_ray :: Ray where
  "inside_ray = \<lparr>origin = \<lparr>vx = Fin 1, vy = Fin 0, vz = Fin 0\<rparr>,
                 direction = \<lparr>vx = Fin 1, vy = Fin 0, vz = Fin 0\<rparr>\<rparr>"

section \<open>Properties of normalize\<close>

text \<open>
  \<open>sqrt_16\<close>, \<open>new_Vector3_Fin\<close> and \<open>norm_Fin\<close> serve to evaluate at concrete inputs.
\<close>

lemma sqrt_16: "sqrt 16 = 4"
proof -
  have "sqrt (4 * 4) = \<bar>4\<bar>" by (rule real_sqrt_abs2)
  then show ?thesis by simp
qed

lemma js_or_Fin: "js_or (Fin a) (Fin 0) = Fin a"
  by (simp add: js_or_def)

lemma new_Vector3_Fin:
  "new_Vector3 (Fin a) (Fin b) (Fin c) = \<lparr>vx = Fin a, vy = Fin b, vz = Fin c\<rparr>"
  by (simp add: new_Vector3_def js_or_Fin)

lemma norm_Fin:
  "Vector3_norm \<lparr>vx = Fin a, vy = Fin b, vz = Fin c\<rparr> = Fin (sqrt (a * a + b * b + c * c))"
proof -
  have "0 \<le> a * a + b * b + c * c" by simp
  then have "\<not> a * a + b * b + c * c < 0" by linarith
  then show ?thesis by (simp add: Vector3_norm_def Vector3_inner_def)
qed














section \<open>Plane intersection\<close>

lemma js_mul_commute: "js_mul a b = js_mul b a"
  by (cases a; cases b) (simp_all add: mult.commute)

lemma Vector3_inner_commute: "Vector3_inner u v = Vector3_inner v u"
  by (simp add: Vector3_inner_def js_mul_commute)

text \<open>
  C7. For every ray and plane, \<open>Plane.checkIntersection\<close> computes
  \<open>denom = <normal, direction>\<close> and returns \<open>Infinity\<close> when \<open>|denom| < epsilon\<close>;
  otherwise it computes \<open>t = <normal, planePoint - origin> / denom\<close> and returns \<open>t\<close> when
  \<open>t > epsilon\<close>, and \<open>Infinity\<close> when not.
\<close>

theorem Plane_checkIntersection_spec:
  "Plane_checkIntersection sc (Plane p n m i) ray =
     (let denom = Vector3_inner n (direction ray)
      in if js_lt (js_abs denom) (zero_tol (image_cfg sc)) then PInf
         else (let t = js_div (Vector3_inner n (Vector3_subtract p (origin ray))) denom
               in if js_gt t (zero_tol (image_cfg sc)) then t else PInf))"
  by (simp add: Plane_checkIntersection_def Plane_normal_def Let_def
      Vector3_inner_commute [of n])

section \<open>The closest intersection\<close>

lemma js_lt_trans: "js_lt a b \<Longrightarrow> js_lt b c \<Longrightarrow> js_lt a c"
  by (cases a; cases b; cases c) simp_all

lemma js_lt_imp_le: "js_lt a b \<Longrightarrow> js_le a b"
  by (cases a; cases b) simp_all

lemma js_le_refl_hit: "js_lt a PInf \<Longrightarrow> js_le a a"
  by (cases a) simp_all

lemma js_not_lt_le: "js_lt a PInf \<Longrightarrow> js_lt c b \<Longrightarrow> \<not> js_lt a b \<Longrightarrow> js_le b a"
  by (cases a; cases b; cases c) simp_all

lemma js_not_lt_le_hits: "js_lt a PInf \<Longrightarrow> js_lt b PInf \<Longrightarrow> \<not> js_lt a b \<Longrightarrow> js_le b a"
  by (cases a; cases b) simp_all

lemma js_lt_le_trans: "js_lt a b \<Longrightarrow> js_le b c \<Longrightarrow> js_lt a c"
  by (cases a; cases b; cases c) simp_all

lemma js_le_not_lt: "js_le a b \<Longrightarrow> \<not> js_lt b a"
  by (cases a; cases b) simp_all

text \<open>The scan, from any index and any best intersection so far.\<close>

lemma closestIntersection_loop_result:
  fixes sc ray
  defines "f \<equiv> \<lambda>obj. Primitive_checkIntersection sc obj ray"
  shows "(closestIntersection_loop sc ray i objs cur = cur
            \<and> (\<forall>j<length objs. \<not> (js_lt (f (objs ! j)) PInf \<and> js_lt (f (objs ! j)) (tval cur))))
         \<or> (\<exists>k<length objs.
               closestIntersection_loop sc ray i objs cur
                 = \<lparr>object = Some (i + k), tval = f (objs ! k)\<rparr>
               \<and> js_lt (f (objs ! k)) PInf
               \<and> js_lt (f (objs ! k)) (tval cur)
               \<and> (\<forall>j<length objs. js_lt (f (objs ! j)) PInf \<longrightarrow> js_le (f (objs ! k)) (f (objs ! j)))
               \<and> (\<forall>j<k. js_lt (f (objs ! j)) PInf \<longrightarrow> js_lt (f (objs ! k)) (f (objs ! j))))"
proof (induction objs arbitrary: i cur)
  case Nil
  then show ?case by simp
next
  case (Cons obj objs)
  define s where "s = f obj"
  define cur' where "cur' = (if js_lt s PInf \<and> js_lt s (tval cur)
                             then \<lparr>object = Some i, tval = s\<rparr> else cur)"
  have step: "closestIntersection_loop sc ray i (obj # objs) cur
              = closestIntersection_loop sc ray (Suc i) objs cur'"
    by (simp add: cur'_def s_def f_def js_gt_def Let_def)
  let ?res = "closestIntersection_loop sc ray (Suc i) objs cur'"
  from Cons.IH [of "Suc i" cur']
  consider (same) "?res = cur'"
      "\<forall>j<length objs. \<not> (js_lt (f (objs ! j)) PInf \<and> js_lt (f (objs ! j)) (tval cur'))"
    | (later) k where "k < length objs"
      "?res = \<lparr>object = Some (Suc i + k), tval = f (objs ! k)\<rparr>"
      "js_lt (f (objs ! k)) PInf" "js_lt (f (objs ! k)) (tval cur')"
      "\<forall>j<length objs. js_lt (f (objs ! j)) PInf \<longrightarrow> js_le (f (objs ! k)) (f (objs ! j))"
      "\<forall>j<k. js_lt (f (objs ! j)) PInf \<longrightarrow> js_lt (f (objs ! k)) (f (objs ! j))"
    by blast
  then show ?case
  proof cases
    case same
    show ?thesis
    proof (cases "js_lt s PInf \<and> js_lt s (tval cur)")
      case True
      then have c: "cur' = \<lparr>object = Some i, tval = s\<rparr>" by (simp add: cur'_def)
      have "\<forall>j<length (obj # objs). js_lt (f ((obj # objs) ! j)) PInf
              \<longrightarrow> js_le (f ((obj # objs) ! 0)) (f ((obj # objs) ! j))"
      proof (intro allI impI)
        fix j assume j: "j < length (obj # objs)" and h: "js_lt (f ((obj # objs) ! j)) PInf"
        show "js_le (f ((obj # objs) ! 0)) (f ((obj # objs) ! j))"
        proof (cases j)
          case 0
          then show ?thesis using True by (simp add: s_def [symmetric] js_le_refl_hit)
        next
          case (Suc j')
          then have "\<not> js_lt (f (objs ! j')) s" using same(2) j h c by auto
          then show ?thesis using Suc h True
            by (simp add: s_def [symmetric] js_not_lt_le_hits)
        qed
      qed
      then show ?thesis using True same(1) c step
        by (intro disjI2 exI [of _ 0]) (simp add: s_def [symmetric])
    next
      case False
      then have c: "cur' = cur" by (auto simp: cur'_def)
      have "\<forall>j<length (obj # objs). \<not> (js_lt (f ((obj # objs) ! j)) PInf
              \<and> js_lt (f ((obj # objs) ! j)) (tval cur))"
      proof (intro allI impI)
        fix j assume j: "j < length (obj # objs)"
        show "\<not> (js_lt (f ((obj # objs) ! j)) PInf \<and> js_lt (f ((obj # objs) ! j)) (tval cur))"
          using False same(2) j c by (cases j) (auto simp: s_def)
      qed
      then show ?thesis using same(1) c step by simp
    qed
  next
    case later
    let ?tk = "f (objs ! k)"
    have lt_cur: "js_lt ?tk (tval cur)"
    proof (cases "js_lt s PInf \<and> js_lt s (tval cur)")
      case True
      then have "js_lt ?tk s" using later(4) by (simp add: cur'_def)
      then show ?thesis using True by (blast intro: js_lt_trans)
    next
      case False
      then have "cur' = cur" by (auto simp: cur'_def)
      then show ?thesis using later(4) by simp
    qed
    have below_s: "js_lt s PInf \<Longrightarrow> js_lt ?tk s"
    proof -
      assume h: "js_lt s PInf"
      show "js_lt ?tk s"
      proof (cases "js_lt s (tval cur)")
        case True
        then show ?thesis using later(4) h by (simp add: cur'_def)
      next
        case False
        with h lt_cur have "js_le (tval cur) s" by (rule js_not_lt_le)
        with lt_cur show ?thesis by (rule js_lt_le_trans)
      qed
    qed
    have min: "\<forall>j<length (obj # objs). js_lt (f ((obj # objs) ! j)) PInf
              \<longrightarrow> js_le (f ((obj # objs) ! Suc k)) (f ((obj # objs) ! j))"
    proof (intro allI impI)
      fix j assume j: "j < length (obj # objs)" and h: "js_lt (f ((obj # objs) ! j)) PInf"
      show "js_le (f ((obj # objs) ! Suc k)) (f ((obj # objs) ! j))"
        using j h later(5) below_s by (cases j) (auto simp: s_def js_lt_imp_le)
    qed
    have first: "\<forall>j<Suc k. js_lt (f ((obj # objs) ! j)) PInf
              \<longrightarrow> js_lt (f ((obj # objs) ! Suc k)) (f ((obj # objs) ! j))"
    proof (intro allI impI)
      fix j assume j: "j < Suc k" and h: "js_lt (f ((obj # objs) ! j)) PInf"
      show "js_lt (f ((obj # objs) ! Suc k)) (f ((obj # objs) ! j))"
        using j h later(6) below_s by (cases j) (auto simp: s_def)
    qed
    show ?thesis
      using later(1,2,3) lt_cur min first step
      by (intro disjI2 exI [of _ "Suc k"]) simp
  qed
qed

lemma js_ge_not_NInf:
  "js_ge t e \<Longrightarrow> e \<noteq> NInf \<Longrightarrow> t = PInf \<or> js_isFinite t"
  by (cases t; cases e) (simp_all add: js_ge_def)

lemma js_not_lt_zero:
  "\<not> js_lt t (Fin 0) \<Longrightarrow> t \<noteq> NaN \<Longrightarrow> t = PInf \<or> js_isFinite t"
  by (cases t) simp_all

lemma js_max_NaN: "js_max NaN b = NaN"
  by (simp add: js_max_def)

lemma js_ge_NaN: "\<not> js_ge NaN e"
  by (cases e) (simp_all add: js_ge_def)

lemma Sphere_checkIntersection_range:
  assumes "zero_tol (image_cfg sc) \<noteq> NInf"
  shows "Sphere_checkIntersection sc this ray = PInf
         \<or> js_isFinite (Sphere_checkIntersection sc this ray)"
proof -
  define eps where "eps = zero_tol (image_cfg sc)"
  have core: "(if js_ge (js_max t0 t1) eps then (if js_lt t0 (Fin 0) then js_max t0 t1 else t0) else PInf) = PInf
        \<or> js_isFinite (if js_ge (js_max t0 t1) eps then (if js_lt t0 (Fin 0) then js_max t0 t1 else t0) else PInf)"
    for t0 t1
  proof (cases "js_ge (js_max t0 t1) eps")
    case False
    then show ?thesis by simp
  next
    case True
    then have "t0 \<noteq> NaN" using js_max_NaN js_ge_NaN by metis
    with True assms show ?thesis
      by (auto simp: eps_def dest: js_ge_not_NInf js_not_lt_zero)
  qed
  show ?thesis
    unfolding Sphere_checkIntersection_def Let_def eps_def [symmetric]
    using core by (simp split: if_splits)
qed

lemma Plane_checkIntersection_range:
  "Plane_checkIntersection sc this ray = PInf
   \<or> js_isFinite (Plane_checkIntersection sc this ray)"
proof -
  have "js_gt t e \<Longrightarrow> js_isFinite t \<or> t = PInf" for t e
    by (cases t; cases e) (simp_all add: js_gt_def)
  then show ?thesis
    by (auto simp: Plane_checkIntersection_def Let_def)
qed

lemma Primitive_checkIntersection_range:
  assumes "zero_tol (image_cfg sc) \<noteq> NInf"
  shows "Primitive_checkIntersection sc this ray = PInf
         \<or> js_isFinite (Primitive_checkIntersection sc this ray)"
  using Sphere_checkIntersection_range [OF assms] Plane_checkIntersection_range
  by (simp add: Primitive_checkIntersection_def split: Primitive.split)

lemma finite_iff_hit:
  assumes "t = PInf \<or> js_isFinite t"
  shows "js_lt t PInf \<longleftrightarrow> js_isFinite t"
  using assms by (cases t) simp_all

lemma closestIntersection_result:
  fixes sc ray
  defines "ts \<equiv> map (\<lambda>obj. Primitive_checkIntersection sc obj ray) (objects sc)"
  shows "(closestIntersection sc ray = \<lparr>object = None, tval = PInf\<rparr>
            \<and> (\<forall>j<length ts. \<not> js_lt (ts ! j) PInf))
         \<or> (\<exists>k<length ts.
               closestIntersection sc ray = \<lparr>object = Some k, tval = ts ! k\<rparr>
               \<and> js_lt (ts ! k) PInf
               \<and> (\<forall>j<length ts. js_lt (ts ! j) PInf \<longrightarrow> js_le (ts ! k) (ts ! j))
               \<and> (\<forall>j<k. js_lt (ts ! j) PInf \<longrightarrow> js_lt (ts ! k) (ts ! j)))"
proof -
  let ?f = "\<lambda>obj. Primitive_checkIntersection sc obj ray"
  let ?res = "closestIntersection_loop sc ray 0 (objects sc) \<lparr>object = None, tval = PInf\<rparr>"
  have nth: "ts ! j = ?f (objects sc ! j)" if "j < length (objects sc)" for j
    using that by (simp add: ts_def)
  have len: "length ts = length (objects sc)" by (simp add: ts_def)
  from closestIntersection_loop_result [of sc ray 0 "objects sc" "\<lparr>object = None, tval = PInf\<rparr>"]
  consider (none) "?res = \<lparr>object = None, tval = PInf\<rparr>"
      "\<forall>j<length (objects sc). \<not> js_lt (?f (objects sc ! j)) PInf"
    | (some) k where "k < length (objects sc)"
      "?res = \<lparr>object = Some k, tval = ?f (objects sc ! k)\<rparr>"
      "js_lt (?f (objects sc ! k)) PInf"
      "\<forall>j<length (objects sc). js_lt (?f (objects sc ! j)) PInf
          \<longrightarrow> js_le (?f (objects sc ! k)) (?f (objects sc ! j))"
      "\<forall>j<k. js_lt (?f (objects sc ! j)) PInf
          \<longrightarrow> js_lt (?f (objects sc ! k)) (?f (objects sc ! j))"
    by auto
  then show ?thesis
  proof cases
    case none
    then show ?thesis by (simp add: closestIntersection_def len nth)
  next
    case some
    have "\<forall>j<k. js_lt (ts ! j) PInf \<longrightarrow> js_lt (ts ! k) (ts ! j)"
      using some(1,5) by (simp add: nth)
    moreover have "\<forall>j<length ts. js_lt (ts ! j) PInf \<longrightarrow> js_le (ts ! k) (ts ! j)"
      using some(1,4) by (simp add: nth len)
    ultimately show ?thesis
      using some(1,2,3) by (intro disjI2 exI [of _ k]) (simp add: closestIntersection_def len nth)
  qed
qed

lemma Vector3_add_Fin:
  "Vector3_add \<lparr>vx = Fin a, vy = Fin b, vz = Fin c\<rparr> \<lparr>vx = Fin a', vy = Fin b', vz = Fin c'\<rparr>
   = \<lparr>vx = Fin (a + a'), vy = Fin (b + b'), vz = Fin (c + c')\<rparr>"
  by (simp add: Vector3_add_def new_Vector3_Fin)

lemma Vector3_times_Fin:
  "Vector3_times \<lparr>vx = Fin a, vy = Fin b, vz = Fin c\<rparr> (Fin s)
   = \<lparr>vx = Fin (s * a), vy = Fin (s * b), vz = Fin (s * c)\<rparr>"
  by (simp add: Vector3_times_def new_Vector3_Fin)

lemma Vector3_subtract_Fin:
  "Vector3_subtract \<lparr>vx = Fin a, vy = Fin b, vz = Fin c\<rparr> \<lparr>vx = Fin a', vy = Fin b', vz = Fin c'\<rparr>
   = \<lparr>vx = Fin (a - a'), vy = Fin (b - b'), vz = Fin (c - c')\<rparr>"
  by (simp add: Vector3_subtract_def Vector3_add_Fin Vector3_times_Fin)

lemma Vector3_inner_Fin:
  "Vector3_inner \<lparr>vx = Fin a, vy = Fin b, vz = Fin c\<rparr> \<lparr>vx = Fin a', vy = Fin b', vz = Fin c'\<rparr>
   = Fin (a * a' + b * b' + c * c')"
  by (simp add: Vector3_inner_def)

lemmas Fin_vec = Vector3_add_Fin Vector3_times_Fin Vector3_subtract_Fin Vector3_inner_Fin
  new_Vector3_Fin

lemma new_Ray_down:
  "new_Ray \<lparr>vx = Fin 0, vy = Fin 4, vz = Fin 0\<rparr> \<lparr>vx = Fin 0, vy = Fin (- 4), vz = Fin 0\<rparr>
   = down_ray"
proof -
  have "sqrt 16 = 4" by (rule sqrt_16)
  then show ?thesis
    by (simp add: new_Ray_def down_ray_def Vector3_normalize_def norm_Fin js_ne_def
        Vector3_divide_def Vector3_times_Fin Let_def)
qed

lemma shadow_plane_t:
  "Primitive_checkIntersection shadow_scene floor_plane down_ray = Fin 4"
  by (simp add: shadow_scene_def floor_plane_def down_ray_def Primitive_checkIntersection_def
      Plane_checkIntersection_def Plane_normal_def Fin_vec js_gt_def Let_def)

lemma shadow_sphere_t:
  "Primitive_checkIntersection shadow_scene ball down_ray = Fin 1"
  by (simp add: shadow_scene_def ball_def down_ray_def Primitive_checkIntersection_def
      Sphere_checkIntersection_def Fin_vec js_sub_def js_ge_def js_min_def js_max_def Let_def)

lemma shadow_objects: "objects shadow_scene = [floor_plane, ball]"
  by (simp add: shadow_scene_def)

lemma shadow_closest:
  "closestIntersection shadow_scene down_ray = \<lparr>object = Some 1, tval = Fin 1\<rparr>"
  by (simp add: closestIntersection_def shadow_objects shadow_plane_t shadow_sphere_t
      js_gt_def Let_def)

text \<open>
  C4. \<open>ts\<close> are the distances that \<open>checkIntersection\<close> returns for the primitives of
  the scene, in the order of the list. When the tolerance is not \<open>-Infinity\<close>, every
  distance is finite or \<open>Infinity\<close>. If some distance is finite, \<open>closestIntersection\<close>
  returns a primitive \<open>k\<close> with its distance, that distance is finite and the minimum of
  the finite ones, and every earlier primitive with a finite distance is strictly farther
  (on a tie the first one wins). If none is finite it returns no primitive and \<open>Infinity\<close>.
\<close>

theorem closestIntersection_minimum:
  fixes sc :: Scene and ray :: Ray
  assumes "zero_tol (image_cfg sc) \<noteq> NInf"
  defines "ts \<equiv> map (\<lambda>obj. Primitive_checkIntersection sc obj ray) (objects sc)"
  shows "if \<exists>j<length ts. js_isFinite (ts ! j)
         then \<exists>k<length ts.
                closestIntersection sc ray = \<lparr>object = Some k, tval = ts ! k\<rparr>
                \<and> js_isFinite (ts ! k)
                \<and> (\<forall>j<length ts. js_isFinite (ts ! j) \<longrightarrow> js_le (ts ! k) (ts ! j))
                \<and> (\<forall>j<k. js_isFinite (ts ! j) \<longrightarrow> js_lt (ts ! k) (ts ! j))
         else closestIntersection sc ray = \<lparr>object = None, tval = PInf\<rparr>"
proof -
  have hit: "js_lt (ts ! j) PInf \<longleftrightarrow> js_isFinite (ts ! j)" if "j < length ts" for j
    using that Primitive_checkIntersection_range [OF assms(1)]
    by (simp add: ts_def finite_iff_hit)
  from closestIntersection_result [of sc ray]
  consider (none) "closestIntersection sc ray = \<lparr>object = None, tval = PInf\<rparr>"
      "\<forall>j<length ts. \<not> js_lt (ts ! j) PInf"
    | (some) k where "k < length ts"
      "closestIntersection sc ray = \<lparr>object = Some k, tval = ts ! k\<rparr>"
      "js_lt (ts ! k) PInf"
      "\<forall>j<length ts. js_lt (ts ! j) PInf \<longrightarrow> js_le (ts ! k) (ts ! j)"
      "\<forall>j<k. js_lt (ts ! j) PInf \<longrightarrow> js_lt (ts ! k) (ts ! j)"
    unfolding ts_def by blast
  then show ?thesis
  proof cases
    case none
    then have "\<not> (\<exists>j<length ts. js_isFinite (ts ! j))" using hit by blast
    with none(1) show ?thesis by simp
  next
    case some
    have ex: "\<exists>j<length ts. js_isFinite (ts ! j)" using some(1,3) hit by blast
    have "js_isFinite (ts ! k)" using some(1,3) hit by blast
    moreover have "\<forall>j<length ts. js_isFinite (ts ! j) \<longrightarrow> js_le (ts ! k) (ts ! j)"
      using some(4) hit by blast
    moreover have "\<forall>j<k. js_isFinite (ts ! j) \<longrightarrow> js_lt (ts ! k) (ts ! j)"
      using some(1,5) hit by (meson less_trans)
    ultimately have "\<exists>k<length ts.
                closestIntersection sc ray = \<lparr>object = Some k, tval = ts ! k\<rparr>
                \<and> js_isFinite (ts ! k)
                \<and> (\<forall>j<length ts. js_isFinite (ts ! j) \<longrightarrow> js_le (ts ! k) (ts ! j))
                \<and> (\<forall>j<k. js_isFinite (ts ! j) \<longrightarrow> js_lt (ts ! k) (ts ! j))"
      using some(1,2) by blast
    with ex show ?thesis by simp
  qed
qed

lemma twin_plane_t:
  "Primitive_checkIntersection twin_scene floor_plane down_ray = Fin 4"
  by (simp add: twin_scene_def shadow_scene_def floor_plane_def down_ray_def Primitive_checkIntersection_def
      Plane_checkIntersection_def Plane_normal_def Fin_vec js_gt_def Let_def)

lemma twin_objects: "objects twin_scene = [floor_plane, floor_plane]"
  by (simp add: twin_scene_def)

lemma twin_closest:
  "closestIntersection twin_scene down_ray = \<lparr>object = Some 0, tval = Fin 4\<rparr>"
  by (simp add: closestIntersection_def twin_objects twin_plane_t js_gt_def Let_def)

theorem closestIntersection_minimum_witness:
  "closestIntersection twin_scene down_ray = \<lparr>object = Some 0, tval = Fin 4\<rparr>
   \<and> map (\<lambda>obj. Primitive_checkIntersection twin_scene obj down_ray) (objects twin_scene)
       = [Fin 4, Fin 4]
   \<and> zero_tol (image_cfg twin_scene) \<noteq> NInf"
proof -
  have tol: "zero_tol (image_cfg twin_scene) \<noteq> NInf"
    by (simp add: twin_scene_def shadow_scene_def)
  have ts: "map (\<lambda>obj. Primitive_checkIntersection twin_scene obj down_ray) (objects twin_scene)
       = [Fin 4, Fin 4]"
    by (simp add: twin_objects twin_plane_t)
  show ?thesis
    using closestIntersection_minimum [OF tol, of down_ray] twin_closest ts tol by blast
qed

text \<open>
  C3. \<open>shadow\<close> is the ray from the light towards the point and \<open>ts\<close> are the distances
  of the primitives along it; a hit is a distance below \<open>Infinity\<close>. \<open>Light.visible\<close> is
  true exactly when the closest intersection of \<open>shadow\<close> is the candidate \<open>k\<close> and its
  distance exceeds \<open>-epsilon\<close>: that is, when \<open>k\<close> is hit, no hit is nearer, no earlier
  primitive is hit at the same distance, and the distance exceeds \<open>-epsilon\<close>. It is false
  when another primitive is hit nearer and when nothing is hit.
\<close>

theorem Light_visible_iff_closest:
  fixes sc :: Scene and l :: Light and p :: Vector3 and k :: nat
  defines "shadow \<equiv> new_Ray (light_position l) (Vector3_subtract p (light_position l))"
  defines "ts \<equiv> map (\<lambda>obj. Primitive_checkIntersection sc obj shadow) (objects sc)"
  defines "eps \<equiv> zero_tol (image_cfg sc)"
  shows "(Light_visible sc l p k \<longleftrightarrow>
            object (closestIntersection sc shadow) = Some k
            \<and> js_gt (tval (closestIntersection sc shadow)) (js_neg eps))
         \<and> (Light_visible sc l p k \<longleftrightarrow>
            k < length ts \<and> js_lt (ts ! k) PInf
            \<and> (\<forall>j<length ts. js_lt (ts ! j) PInf \<longrightarrow> js_le (ts ! k) (ts ! j))
            \<and> (\<forall>j<k. js_lt (ts ! j) PInf \<longrightarrow> js_lt (ts ! k) (ts ! j))
            \<and> js_gt (ts ! k) (js_neg eps))
         \<and> ((\<exists>j<length ts. j \<noteq> k \<and> js_lt (ts ! j) PInf \<and> js_lt (ts ! j) (ts ! k))
              \<longrightarrow> \<not> Light_visible sc l p k)
         \<and> ((\<forall>j<length ts. \<not> js_lt (ts ! j) PInf) \<longrightarrow> \<not> Light_visible sc l p k)"
proof -
  let ?best = "\<lambda>k. k < length ts \<and> js_lt (ts ! k) PInf
            \<and> (\<forall>j<length ts. js_lt (ts ! j) PInf \<longrightarrow> js_le (ts ! k) (ts ! j))
            \<and> (\<forall>j<k. js_lt (ts ! j) PInf \<longrightarrow> js_lt (ts ! k) (ts ! j))"
  have vis: "Light_visible sc l p k \<longleftrightarrow>
            object (closestIntersection sc shadow) = Some k
            \<and> js_gt (tval (closestIntersection sc shadow)) (js_neg eps)"
    by (simp add: Light_visible_def shadow_def eps_def Let_def)
  have uniq: "k1 = k2" if b1: "?best k1" and b2: "?best k2" for k1 k2
  proof (rule ccontr)
    assume "k1 \<noteq> k2"
    then consider "k1 < k2" | "k2 < k1" by (meson nat_neq_iff)
    then show False
    proof cases
      case 1
      with b1 b2 have "js_lt (ts ! k2) (ts ! k1)" "js_le (ts ! k1) (ts ! k2)" by blast+
      then show False by (simp add: js_le_not_lt)
    next
      case 2
      with b1 b2 have "js_lt (ts ! k1) (ts ! k2)" "js_le (ts ! k2) (ts ! k1)" by blast+
      then show False by (simp add: js_le_not_lt)
    qed
  qed
  from closestIntersection_result [of sc shadow]
  consider (none) "closestIntersection sc shadow = \<lparr>object = None, tval = PInf\<rparr>"
      "\<forall>j<length ts. \<not> js_lt (ts ! j) PInf"
    | (some) k0 where "closestIntersection sc shadow = \<lparr>object = Some k0, tval = ts ! k0\<rparr>"
      "?best k0"
    unfolding ts_def by blast
  then have sem: "Light_visible sc l p k \<longleftrightarrow> ?best k \<and> js_gt (ts ! k) (js_neg eps)"
  proof cases
    case none
    then show ?thesis unfolding vis by auto
  next
    case some
    show ?thesis
    proof
      assume "Light_visible sc l p k"
      then have "k0 = k" "js_gt (ts ! k0) (js_neg eps)" using some(1) by (auto simp: vis)
      with some(2) show "?best k \<and> js_gt (ts ! k) (js_neg eps)" by simp
    next
      assume r: "?best k \<and> js_gt (ts ! k) (js_neg eps)"
      then have "k0 = k" using some(2) uniq by blast
      with r some(1) show "Light_visible sc l p k" by (auto simp: vis)
    qed
  qed
  have nearer: "\<not> Light_visible sc l p k"
    if "\<exists>j<length ts. j \<noteq> k \<and> js_lt (ts ! j) PInf \<and> js_lt (ts ! j) (ts ! k)"
  proof
    assume "Light_visible sc l p k"
    then have "?best k" using sem by blast
    with that obtain j where "js_lt (ts ! j) (ts ! k)" "js_le (ts ! k) (ts ! j)" by blast
    then show False by (simp add: js_le_not_lt)
  qed
  have nohit: "\<not> Light_visible sc l p k" if "\<forall>j<length ts. \<not> js_lt (ts ! j) PInf"
    using that sem by blast
  from vis sem nearer nohit show ?thesis by blast
qed

lemma shadow_ray_down:
  "new_Ray (light_position top_light)
     (Vector3_subtract \<lparr>vx = Fin 0, vy = Fin 0, vz = Fin 0\<rparr> (light_position top_light))
   = down_ray"
  by (simp add: top_light_def Vector3_subtract_Fin new_Ray_down)

lemma shadow_tol: "zero_tol (image_cfg shadow_scene) = Fin (1 / 1000)"
  by (simp add: shadow_scene_def)

theorem Light_visible_iff_closest_witness:
  "\<not> Light_visible shadow_scene top_light \<lparr>vx = Fin 0, vy = Fin 0, vz = Fin 0\<rparr> 0
   \<and> Light_visible shadow_scene top_light \<lparr>vx = Fin 0, vy = Fin 0, vz = Fin 0\<rparr> 1"
proof -
  have a: "\<not> Light_visible shadow_scene top_light \<lparr>vx = Fin 0, vy = Fin 0, vz = Fin 0\<rparr> 0"
    by (simp add: Light_visible_def shadow_ray_down shadow_closest)
  have b: "Light_visible shadow_scene top_light \<lparr>vx = Fin 0, vy = Fin 0, vz = Fin 0\<rparr> 1"
    by (simp add: Light_visible_def shadow_ray_down shadow_closest shadow_tol js_gt_def)
  show ?thesis
    using Light_visible_iff_closest [of shadow_scene top_light
        "\<lparr>vx = Fin 0, vy = Fin 0, vz = Fin 0\<rparr>" 0] a b
    by blast
qed

lemmas eval_defs = Primitive_checkIntersection_def Plane_checkIntersection_def Plane_normal_def
  Sphere_checkIntersection_def Fin_vec js_sub_def js_ge_def js_gt_def js_min_def js_max_def Let_def

lemma cam_plane_t: "Primitive_checkIntersection shadow_scene floor_plane cam_ray = Fin 5"
  by (simp add: shadow_scene_def floor_plane_def cam_ray_def eval_defs)

lemma cam_ball_t: "Primitive_checkIntersection shadow_scene ball cam_ray = PInf"
  by (simp add: shadow_scene_def ball_def cam_ray_def eval_defs)

lemma cam_closest: "closestIntersection shadow_scene cam_ray = \<lparr>object = Some 0, tval = Fin 5\<rparr>"
  by (simp add: closestIntersection_def shadow_objects cam_plane_t cam_ball_t js_gt_def Let_def)

lemma miss_plane_t: "Primitive_checkIntersection shadow_scene floor_plane miss_ray = PInf"
  by (simp add: shadow_scene_def floor_plane_def miss_ray_def eval_defs)

lemma miss_ball_t: "Primitive_checkIntersection shadow_scene ball miss_ray = PInf"
  by (simp add: shadow_scene_def ball_def miss_ray_def eval_defs)

lemma miss_closest: "closestIntersection shadow_scene miss_ray = \<lparr>object = None, tval = PInf\<rparr>"
  by (simp add: closestIntersection_def shadow_objects miss_plane_t miss_ball_t js_gt_def Let_def)

lemma bounce_plane_t: "Primitive_checkIntersection shadow_scene floor_plane bounce_ray = PInf"
  by (simp add: shadow_scene_def floor_plane_def bounce_ray_def eval_defs)

lemma bounce_ball_t: "Primitive_checkIntersection shadow_scene ball bounce_ray = PInf"
  by (simp add: shadow_scene_def ball_def bounce_ray_def eval_defs)

lemma bounce_closest: "closestIntersection shadow_scene bounce_ray = \<lparr>object = None, tval = PInf\<rparr>"
  by (simp add: closestIntersection_def shadow_objects bounce_plane_t bounce_ball_t js_gt_def Let_def)

lemma traceRay_no_hit:
  "object (closestIntersection sc ray) = None
   \<Longrightarrow> traceRay sc ray depth ds = Inr (background (camera sc), ds)"
  by (simp add: traceRay.simps Let_def)

lemma traceRay_hit:
  "object (closestIntersection sc ray) \<noteq> None
   \<Longrightarrow> traceRay sc ray depth ds = computeColor sc ray (closestIntersection sc ray) depth ds"
  by (auto simp: traceRay.simps Let_def)

lemma closestIntersection_no_objects:
  "objects sc = [] \<Longrightarrow> closestIntersection sc ray = \<lparr>object = None, tval = PInf\<rparr>"
  by (simp add: closestIntersection_def)

lemma closestIntersection_all_miss:
  assumes "\<forall>obj\<in>set (objects sc). \<not> js_lt (Primitive_checkIntersection sc obj ray) PInf"
  shows "closestIntersection sc ray = \<lparr>object = None, tval = PInf\<rparr>"
  using closestIntersection_result [of sc ray] assms by (auto simp: all_set_conv_all_nth)

text \<open>
  C6. \<open>traceRay\<close> returns the background colour of the camera, and takes no random
  draw, when \<open>closestIntersection\<close> finds no primitive: in particular in a scene without
  primitives and when no primitive is hit. Otherwise it returns what \<open>computeColor\<close>
  returns for the intersection found.
\<close>

theorem traceRay_background_or_computeColor:
  "(object (closestIntersection sc ray) = None
      \<longrightarrow> traceRay sc ray depth ds = Inr (background (camera sc), ds))
   \<and> (objects sc = [] \<longrightarrow> traceRay sc ray depth ds = Inr (background (camera sc), ds))
   \<and> ((\<forall>obj\<in>set (objects sc). \<not> js_lt (Primitive_checkIntersection sc obj ray) PInf)
      \<longrightarrow> traceRay sc ray depth ds = Inr (background (camera sc), ds))
   \<and> (object (closestIntersection sc ray) \<noteq> None
      \<longrightarrow> traceRay sc ray depth ds = computeColor sc ray (closestIntersection sc ray) depth ds)"
  by (simp add: traceRay_no_hit traceRay_hit closestIntersection_no_objects
      closestIntersection_all_miss)

lemma shadow_background: "background (camera shadow_scene) = \<lparr>vx = Fin 100, vy = Fin 100, vz = Fin 100\<rparr>"
  by (simp add: shadow_scene_def)

theorem traceRay_background_or_computeColor_witness:
  "traceRay shadow_scene miss_ray 3 [] = Inr (\<lparr>vx = Fin 100, vy = Fin 100, vz = Fin 100\<rparr>, [])
   \<and> traceRay (shadow_scene\<lparr>objects := []\<rparr>) cam_ray 3 []
       = Inr (\<lparr>vx = Fin 100, vy = Fin 100, vz = Fin 100\<rparr>, [])
   \<and> traceRay shadow_scene cam_ray 3 []
       = computeColor shadow_scene cam_ray \<lparr>object = Some 0, tval = Fin 5\<rparr> 3 []"
proof -
  have a: "object (closestIntersection shadow_scene miss_ray) = None"
    by (simp add: miss_closest)
  have b: "objects (shadow_scene\<lparr>objects := []\<rparr>) = []" by simp
  have c: "object (closestIntersection shadow_scene cam_ray) \<noteq> None"
    by (simp add: cam_closest)
  have d: "background (camera (shadow_scene\<lparr>objects := []\<rparr>)) = \<lparr>vx = Fin 100, vy = Fin 100, vz = Fin 100\<rparr>"
    by (simp add: shadow_scene_def)
  show ?thesis
    using traceRay_background_or_computeColor [of shadow_scene miss_ray 3 "[]"]
      traceRay_background_or_computeColor [of "shadow_scene\<lparr>objects := []\<rparr>" cam_ray 3 "[]"]
      traceRay_background_or_computeColor [of shadow_scene cam_ray 3 "[]"]
      a b c d shadow_background cam_closest
    by simp
qed

lemma computeColor_base:
  assumes "object i = Some k" "k < length (objects sc)" "depth \<le> 1"
  shows "computeColor sc ray i depth ds = Inr (\<lparr>vx = Fin 0, vy = Fin 0, vz = Fin 0\<rparr>, ds)"
  using assms by (simp add: computeColor.simps deref_def new_Vector3_Fin Let_def)

section \<open>Sphere intersection\<close>

lemma js_max_min_second: "js_max (js_min a b) b = (if a = NaN then NaN else b)"
  by (cases a; cases b) (simp_all add: js_max_def js_min_def)

text \<open>
  C2, at a concrete input. The ray starts inside the sphere \<open>dome\<close> (centre 0, radius 2)
  at \<open>(1, 0, 0)\<close> and runs along \<open>(1, 0, 0)\<close>: the roots are \<open>-3\<close> and \<open>1\<close>, and the
  ray leaves the sphere at distance 1. The procedure of the specification returns 1.
  \<open>Sphere.checkIntersection\<close> returns \<open>Infinity\<close>: when it orders the roots it assigns
  \<open>t_0\<close> first and takes the maximum of the new \<open>t_0\<close> and \<open>t_1\<close>, which is \<open>t_1\<close> again
  (\<open>js_max_min_second\<close>), so the larger root is lost whenever it was \<open>t_0\<close>.
\<close>

theorem Sphere_checkIntersection_loses_far_root:
  "Sphere_checkIntersection shadow_scene dome inside_ray = PInf
   \<and> spec_Sphere_intersect (zero_tol (image_cfg shadow_scene)) (position dome) (radius dome)
         inside_ray = Fin 1
   \<and> Vector3_norm (Vector3_subtract (Ray_at inside_ray (Fin 1)) (position dome)) = radius dome"
proof -
  have s16: "sqrt 16 = 4" by (rule sqrt_16)
  have code: "Sphere_checkIntersection shadow_scene dome inside_ray = PInf"
    by (simp add: shadow_scene_def dome_def inside_ray_def eval_defs s16)
  have spec: "spec_Sphere_intersect (zero_tol (image_cfg shadow_scene)) (position dome)
                (radius dome) inside_ray = Fin 1"
    by (simp add: shadow_scene_def dome_def inside_ray_def spec_Sphere_intersect_def eval_defs s16)
  have "sqrt 4 = 2" by simp
  then have point: "Vector3_norm (Vector3_subtract (Ray_at inside_ray (Fin 1)) (position dome))
               = radius dome"
    by (simp add: dome_def inside_ray_def Ray_at_def Fin_vec norm_Fin)
  from code spec point show ?thesis by simp
qed

section \<open>Recursive shading\<close>

lemma randBetween_half: "randBetween (Fin (- 1)) (Fin 1) (1 / 2) = Fin 0"
  by (simp add: randBetween_def js_sub_def)

lemma Vector3_random_half:
  "Vector3_random (Fin (- 1)) (Fin 1) (1 / 2 # 1 / 2 # 1 / 2 # ds)
   = Some (\<lparr>vx = Fin 0, vy = Fin 0, vz = Fin 0\<rparr>, ds)"
  by (simp add: Vector3_random.simps randBetween_half new_Vector3_Fin norm_Fin js_ge_def)

lemma randBetween_zero: "randBetween (Fin (- 1)) (Fin 1) 0 = Fin (- 1)"
  by (simp add: randBetween_def js_sub_def)

lemma Vector3_random_reject:
  "Vector3_random (Fin (- 1)) (Fin 1) (0 # 0 # 0 # ds) = Vector3_random (Fin (- 1)) (Fin 1) ds"
  by (simp add: Vector3_random.simps randBetween_zero new_Vector3_Fin norm_Fin js_ge_def)

lemma deref_floor: "deref shadow_scene 0 = Some floor_plane"
  by (simp add: deref_def shadow_objects)

lemma cam_point: "Ray_at cam_ray (Fin 5) = \<lparr>vx = Fin 0, vy = Fin 0, vz = Fin 0\<rparr>"
  by (simp add: Ray_at_def cam_ray_def Fin_vec)

lemma floor_normal: "Primitive_normal floor_plane p = \<lparr>vx = Fin 0, vy = Fin 1, vz = Fin 0\<rparr>"
  by (simp add: Primitive_normal_def Plane_normal_def floor_plane_def)

lemma floor_material:
  "material floor_plane = \<lparr>color = \<lparr>vx = Fin 10, vy = Fin 20, vz = Fin 30\<rparr>, diffuse = Fin 1,
        specular = Fin 0, ambient = Fin 1\<rparr>"
  by (simp add: floor_plane_def)

lemma floor_in_shadow:
  "\<not> Light_visible shadow_scene top_light \<lparr>vx = Fin 0, vy = Fin 0, vz = Fin 0\<rparr> 0"
  by (simp add: Light_visible_def shadow_ray_down shadow_closest)

lemma floor_lights_loop:
  "lights_loop shadow_scene \<lparr>vx = Fin 0, vy = Fin 0, vz = Fin 0\<rparr> 0 n = Fin 0"
proof -
  have "lights shadow_scene = [top_light]" by (simp add: shadow_scene_def)
  then show ?thesis by (simp add: lights_loop_def lights_step_def floor_in_shadow)
qed

lemma new_Ray_bounce:
  "new_Ray \<lparr>vx = Fin 0, vy = Fin 0, vz = Fin 0\<rparr> \<lparr>vx = Fin 0, vy = Fin (- 1), vz = Fin 0\<rparr>
   = bounce_ray"
  by (simp add: new_Ray_def bounce_ray_def Vector3_normalize_def norm_Fin js_ne_def
      Vector3_divide_def Vector3_times_Fin Let_def)

lemma bounce_trace:
  "traceRay shadow_scene bounce_ray d ds = Inr (\<lparr>vx = Fin 100, vy = Fin 100, vz = Fin 100\<rparr>, ds)"
  by (simp add: traceRay_no_hit bounce_closest shadow_background)

lemma floor_scatter:
  "Material_scatter shadow_scene cam_ray \<lparr>object = Some 0, tval = Fin 5\<rparr> d
     (1 / 2 # 1 / 2 # 1 / 2 # ds)
   = Inr (\<lparr>vx = Fin 100, vy = Fin 100, vz = Fin 100\<rparr>, ds)"
  by (simp add: Material_scatter.simps deref_floor cam_point floor_normal Vector3_random_half
      Fin_vec new_Ray_bounce bounce_trace)

lemma floor_color:
  "computeColor shadow_scene cam_ray \<lparr>object = Some 0, tval = Fin 5\<rparr> 2
     (1 / 2 # 1 / 2 # 1 / 2 # ds)
   = Inr (\<lparr>vx = Fin 10, vy = Fin 20, vz = Fin 30\<rparr>, ds)"
  by (simp add: computeColor.simps deref_floor cam_point floor_normal floor_material
      floor_lights_loop floor_scatter js_gt_def js_min_def Fin_vec)

lemma floor_scatter_reject:
  "Material_scatter shadow_scene cam_ray \<lparr>object = Some 0, tval = Fin 5\<rparr> d
     (0 # 0 # 0 # 1 / 2 # 1 / 2 # 1 / 2 # ds)
   = Inr (\<lparr>vx = Fin 100, vy = Fin 100, vz = Fin 100\<rparr>, ds)"
  by (simp add: Material_scatter.simps deref_floor cam_point floor_normal Vector3_random_reject
      Vector3_random_half Fin_vec new_Ray_bounce bounce_trace)

lemma floor_color_reject:
  "computeColor shadow_scene cam_ray \<lparr>object = Some 0, tval = Fin 5\<rparr> 2
     (0 # 0 # 0 # 1 / 2 # 1 / 2 # 1 / 2 # ds)
   = Inr (\<lparr>vx = Fin 10, vy = Fin 20, vz = Fin 30\<rparr>, ds)"
  by (simp add: computeColor.simps deref_floor cam_point floor_normal floor_material
      floor_lights_loop floor_scatter_reject js_gt_def js_min_def Fin_vec)

lemma computeColor_draws_step:
  assumes IH: "\<And>ray' ds ds' c1 r1 c2 r2.
      traceRay sc ray' (depth - 1) ds = Inr (c1, r1)
      \<Longrightarrow> traceRay sc ray' (depth - 1) ds' = Inr (c2, r2) \<Longrightarrow> \<not> depth < 2 \<Longrightarrow> c1 = c2"
    and a: "computeColor sc ray i depth ds = Inr (c1, r1)"
    and b: "computeColor sc ray i depth ds' = Inr (c2, r2)"
  shows "c1 = c2"
  using a b
  by (auto simp: computeColor.simps Let_def
      split: option.splits sum.splits if_splits prod.splits)
     (blast dest: IH)+

lemma traceRay_draws_step:
  assumes IH: "\<And>i ds ds' c1 r1 c2 r2.
      computeColor sc ray i depth ds = Inr (c1, r1)
      \<Longrightarrow> computeColor sc ray i depth ds' = Inr (c2, r2) \<Longrightarrow> c1 = c2"
    and a: "traceRay sc ray depth ds = Inr (c1, r1)"
    and b: "traceRay sc ray depth ds' = Inr (c2, r2)"
  shows "c1 = c2"
  using a b
  by (auto simp: traceRay.simps Let_def split: if_splits dest: IH)

lemma draws_independent:
  "depth \<le> int n \<Longrightarrow>
     (\<forall>ray ds ds' c1 r1 c2 r2. traceRay sc ray depth ds = Inr (c1, r1)
        \<longrightarrow> traceRay sc ray depth ds' = Inr (c2, r2) \<longrightarrow> c1 = c2)
     \<and> (\<forall>ray i ds ds' c1 r1 c2 r2. computeColor sc ray i depth ds = Inr (c1, r1)
        \<longrightarrow> computeColor sc ray i depth ds' = Inr (c2, r2) \<longrightarrow> c1 = c2)"
proof (induction n arbitrary: depth)
  case 0
  then have small: "depth < 2" by simp
  have C: "c1 = c2" if "computeColor sc ray i depth ds = Inr (c1, r1)"
      "computeColor sc ray i depth ds' = Inr (c2, r2)" for ray i ds ds' c1 r1 c2 r2
    using that by (rule computeColor_draws_step [rotated 1]) (use small in simp)
  have T: "c1 = c2" if "traceRay sc ray depth ds = Inr (c1, r1)"
      "traceRay sc ray depth ds' = Inr (c2, r2)" for ray ds ds' c1 r1 c2 r2
    using that by (rule traceRay_draws_step [rotated 1]) (rule C)
  from C T show ?case by blast
next
  case (Suc n)
  have prev: "c1 = c2" if "traceRay sc ray' (depth - 1) ds = Inr (c1, r1)"
      "traceRay sc ray' (depth - 1) ds' = Inr (c2, r2)" "\<not> depth < 2"
    for ray' ds ds' c1 r1 c2 r2
  proof -
    have "depth - 1 \<le> int n" using Suc.prems by simp
    from Suc.IH [OF this] that(1,2) show ?thesis by blast
  qed
  have C: "c1 = c2" if "computeColor sc ray i depth ds = Inr (c1, r1)"
      "computeColor sc ray i depth ds' = Inr (c2, r2)" for ray i ds ds' c1 r1 c2 r2
    using prev that by (rule computeColor_draws_step)
  have T: "c1 = c2" if "traceRay sc ray depth ds = Inr (c1, r1)"
      "traceRay sc ray depth ds' = Inr (c2, r2)" for ray ds ds' c1 r1 c2 r2
    using that by (rule traceRay_draws_step [rotated 1]) (rule C)
  from C T show ?case by blast
qed

text \<open>
  C10. Two evaluations of \<open>computeColor\<close> on the same scene, ray, intersection and depth
  that differ only in the values drawn by \<open>Math.random()\<close> and that both return, return
  the same colour: the colour of the scattered ray is added to a vector that nothing reads.
\<close>

theorem computeColor_independent_of_draws:
  assumes "computeColor sc ray i depth ds = Inr (c1, r1)"
    and "computeColor sc ray i depth ds' = Inr (c2, r2)"
  shows "c1 = c2"
proof -
  have "depth \<le> int (nat depth)" by simp
  from draws_independent [OF this] assms show ?thesis by blast
qed

theorem computeColor_independent_of_draws_witness:
  "computeColor shadow_scene cam_ray \<lparr>object = Some 0, tval = Fin 5\<rparr> 2 [1 / 2, 1 / 2, 1 / 2]
     = Inr (\<lparr>vx = Fin 10, vy = Fin 20, vz = Fin 30\<rparr>, [])
   \<and> computeColor shadow_scene cam_ray \<lparr>object = Some 0, tval = Fin 5\<rparr> 2
         [0, 0, 0, 1 / 2, 1 / 2, 1 / 2]
     = Inr (\<lparr>vx = Fin 10, vy = Fin 20, vz = Fin 30\<rparr>, [])"
  using computeColor_independent_of_draws [OF floor_color [of "[]"] floor_color_reject [of "[]"]]
    floor_color [of "[]"] floor_color_reject [of "[]"]
  by simp

lemma closestIntersection_object_valid:
  "object (closestIntersection sc ray) = Some k \<Longrightarrow> k < length (objects sc)"
  using closestIntersection_result [of sc ray] by auto

lemma Vector3_random_accepted:
  "0 < accepted_triples ds \<Longrightarrow>
     \<exists>v rest. Vector3_random (Fin (- 1)) (Fin 1) ds = Some (v, rest)
        \<and> accepted_triples ds = Suc (accepted_triples rest)"
proof (induction ds rule: accepted_triples.induct)
  case (1 u1 u2 u3 rest)
  show ?case
  proof (cases "accepts u1 u2 u3")
    case True
    then show ?thesis by (simp add: Vector3_random.simps accepts_def Let_def)
  next
    case False
    then have "0 < accepted_triples rest" using "1.prems" by simp
    from "1.IH" [OF this] False show ?thesis
      by (simp add: Vector3_random.simps accepts_def Let_def)
  qed
qed simp_all

lemma Material_scatter_accepted:
  assumes "object i = Some k" "k < length (objects sc)" "0 < accepted_triples ds"
  shows "\<exists>ray' rest. Material_scatter sc ray i depth ds = traceRay sc ray' depth rest
           \<and> accepted_triples ds = Suc (accepted_triples rest)"
proof -
  from Vector3_random_accepted [OF assms(3)]
  obtain v rest where "Vector3_random (Fin (- 1)) (Fin 1) ds = Some (v, rest)"
      "accepted_triples ds = Suc (accepted_triples rest)"
    by blast
  then show ?thesis
    using assms(1,2) by (auto simp: Material_scatter.simps deref_def Let_def)
qed

lemma traceRay_returns_step:
  assumes C: "\<And>i k. object i = Some k \<Longrightarrow> k < length (objects sc)
      \<Longrightarrow> returns_within n ds (computeColor sc ray i depth ds)"
  shows "returns_within n ds (traceRay sc ray depth ds)"
proof (cases "object (closestIntersection sc ray)")
  case None
  then show ?thesis by (simp add: traceRay_no_hit returns_within_def)
next
  case (Some k)
  then have "k < length (objects sc)" by (rule closestIntersection_object_valid)
  with Some show ?thesis by (simp add: traceRay_hit C)
qed

lemma computeColor_returns_base:
  assumes "object i = Some k" "k < length (objects sc)" "depth < 2"
  shows "returns_within n ds (computeColor sc ray i depth ds)"
  using assms by (simp add: computeColor_base returns_within_def)

lemma computeColor_returns_step:
  assumes T: "\<And>ray' ds'. n \<le> accepted_triples ds' \<Longrightarrow>
      returns_within n ds' (traceRay sc ray' (depth - 1) ds')"
    and valid: "object i = Some k" "k < length (objects sc)"
    and m: "1 + 2 * n \<le> accepted_triples ds" and d: "\<not> depth < 2"
  shows "returns_within (1 + 2 * n) ds (computeColor sc ray i depth ds)"
proof -
  define obj where "obj = objects sc ! k"
  have deref: "deref sc k = Some obj" using valid(2) by (simp add: deref_def obj_def)
  let ?gd = "js_gt (diffuse (material obj)) (Fin 0)"
  let ?gs = "js_gt (specular (material obj)) (Fin 0)"
  text \<open>The diffuse branch leaves the draws \<open>ds1\<close>.\<close>
  have "\<exists>ds1 sc_col. accepted_triples ds1 \<le> accepted_triples ds
          \<and> accepted_triples ds \<le> accepted_triples ds1 + 1 + n \<and> n \<le> accepted_triples ds1
          \<and> (?gd \<longrightarrow> Material_scatter sc ray i (depth - 1) ds = Inr (sc_col, ds1))
          \<and> (\<not> ?gd \<longrightarrow> ds1 = ds)"
  proof (cases ?gd)
    case False
    then show ?thesis using m by (intro exI [of _ ds]) simp
  next
    case True
    have "0 < accepted_triples ds" using m by simp
    from Material_scatter_accepted [OF valid this, of ray "depth - 1"]
    obtain ray' rest where s: "Material_scatter sc ray i (depth - 1) ds
           = traceRay sc ray' (depth - 1) rest"
        and r: "accepted_triples ds = Suc (accepted_triples rest)"
      by blast
    have "n \<le> accepted_triples rest" using m r by simp
    from T [OF this, of ray']
    obtain c ds1 where t: "traceRay sc ray' (depth - 1) rest = Inr (c, ds1)"
        and b: "accepted_triples ds1 \<le> accepted_triples rest"
          "accepted_triples rest \<le> accepted_triples ds1 + n"
      by (auto simp: returns_within_def)
    have "accepted_triples ds1 \<le> accepted_triples ds"
        "accepted_triples ds \<le> accepted_triples ds1 + 1 + n" "n \<le> accepted_triples ds1"
      using b m r by arith+
    then show ?thesis using True s t by (intro exI [of _ ds1] exI [of _ c]) simp
  qed
  then obtain ds1 sc_col where m1: "accepted_triples ds1 \<le> accepted_triples ds"
        "accepted_triples ds \<le> accepted_triples ds1 + 1 + n" "n \<le> accepted_triples ds1"
      and scat: "?gd \<Longrightarrow> Material_scatter sc ray i (depth - 1) ds = Inr (sc_col, ds1)"
      and nod: "\<not> ?gd \<Longrightarrow> ds1 = ds"
    by blast
  text \<open>The specular branch leaves the draws \<open>ds2\<close>.\<close>
  let ?surfaceRay = "new_Ray (Ray_at ray (tval i))
        (Material_reflect (direction ray) (Primitive_normal obj (Ray_at ray (tval i))))"
  have "\<exists>ds2 tr. accepted_triples ds2 \<le> accepted_triples ds1
          \<and> accepted_triples ds1 \<le> accepted_triples ds2 + n
          \<and> (?gs \<longrightarrow> traceRay sc ?surfaceRay (depth - 1) ds1 = Inr (tr, ds2))
          \<and> (\<not> ?gs \<longrightarrow> ds2 = ds1)"
  proof (cases ?gs)
    case False
    then show ?thesis by (intro exI [of _ ds1]) simp
  next
    case True
    from T [OF m1(3), of ?surfaceRay]
    obtain c ds2 where "traceRay sc ?surfaceRay (depth - 1) ds1 = Inr (c, ds2)"
        "accepted_triples ds2 \<le> accepted_triples ds1"
        "accepted_triples ds1 \<le> accepted_triples ds2 + n"
      by (auto simp: returns_within_def)
    then show ?thesis using True by (intro exI [of _ ds2] exI [of _ c]) simp
  qed
  then obtain ds2 tr where m2: "accepted_triples ds2 \<le> accepted_triples ds1"
        "accepted_triples ds1 \<le> accepted_triples ds2 + n"
      and spec: "?gs \<Longrightarrow> traceRay sc ?surfaceRay (depth - 1) ds1 = Inr (tr, ds2)"
      and nos: "\<not> ?gs \<Longrightarrow> ds2 = ds1"
    by blast
  have bounds: "accepted_triples ds2 \<le> accepted_triples ds"
      "accepted_triples ds \<le> accepted_triples ds2 + (1 + 2 * n)"
    using m1 m2 by simp_all
  have "\<exists>c. computeColor sc ray i depth ds = Inr (c, ds2)"
  proof (cases ?gd; cases ?gs)
    assume g: "?gd" "?gs"
    show ?thesis
      using d by (simp add: computeColor.simps valid deref scat [OF g(1)] spec [OF g(2)] g Let_def)
  next
    assume g: "?gd" "\<not> ?gs"
    show ?thesis
      using d by (simp add: computeColor.simps valid deref scat [OF g(1)] nos [OF g(2)] g Let_def)
  next
    assume g: "\<not> ?gd" "?gs"
    show ?thesis
      using d spec [OF g(2)]
      by (simp add: computeColor.simps valid deref nod [OF g(1)] g Let_def)
  next
    assume g: "\<not> ?gd" "\<not> ?gs"
    show ?thesis
      using d by (simp add: computeColor.simps valid deref nod [OF g(1)] nos [OF g(2)] g Let_def)
  qed
  with bounds show ?thesis by (auto simp: returns_within_def)
qed

lemma returns_enough_draws:
  "depth \<le> int n + 1 \<Longrightarrow> samples_needed n \<le> accepted_triples ds \<Longrightarrow>
     returns_within (samples_needed n) ds (traceRay sc ray depth ds)
     \<and> (\<forall>i k. object i = Some k \<longrightarrow> k < length (objects sc) \<longrightarrow>
           returns_within (samples_needed n) ds (computeColor sc ray i depth ds))"
proof (induction n arbitrary: depth ds ray)
  case 0
  then have small: "depth < 2" by simp
  have C: "returns_within (samples_needed 0) ds (computeColor sc ray i depth ds)"
    if "object i = Some k" "k < length (objects sc)" for i k
    using that small by (rule computeColor_returns_base)
  then have "returns_within (samples_needed 0) ds (traceRay sc ray depth ds)"
    by (rule traceRay_returns_step)
  with C show ?case by blast
next
  case (Suc n)
  have C: "returns_within (samples_needed (Suc n)) ds (computeColor sc ray i depth ds)"
    if v: "object i = Some k" "k < length (objects sc)" for i k
  proof (cases "depth < 2")
    case True
    with v show ?thesis by (rule computeColor_returns_base)
  next
    case False
    have le: "depth - 1 \<le> int n + 1" using Suc.prems(1) by simp
    have T: "returns_within (samples_needed n) ds' (traceRay sc ray' (depth - 1) ds')"
      if "samples_needed n \<le> accepted_triples ds'" for ray' ds'
      using Suc.IH [OF le that] by blast
    have "1 + 2 * samples_needed n \<le> accepted_triples ds" using Suc.prems(2) by simp
    from computeColor_returns_step [OF T v this False]
    show ?thesis by simp
  qed
  then have "returns_within (samples_needed (Suc n)) ds (traceRay sc ray depth ds)"
    by (rule traceRay_returns_step)
  with C show ?case by blast
qed

lemma accepts_half: "accepts (1 / 2) (1 / 2) (1 / 2)"
  by (simp add: accepts_def randBetween_half new_Vector3_Fin norm_Fin js_ge_def)

lemma rejects_zero: "\<not> accepts 0 0 0"
  by (simp add: accepts_def randBetween_zero new_Vector3_Fin norm_Fin js_ge_def)

text \<open>
  C5. For every ray and every intersection with a primitive of the scene, \<open>computeColor\<close>
  called with depth 1 returns \<open>(0, 0, 0)\<close> as a value and takes no draw, whatever the
  lights and the material are; so \<open>traceRay\<close> with depth 1 returns the background or
  \<open>(0, 0, 0)\<close>. Every chain of bounces ends: for every depth and every list of draws in
  which \<open>Vector3.random\<close> finds \<open>samples_needed (depth - 1)\<close> vectors that it accepts, with
  any number of rejected ones between them, \<open>computeColor\<close> and \<open>traceRay\<close> return a colour
  and use no more accepted vectors than that.
\<close>

theorem computeColor_depth_one_and_termination:
  assumes "object i = Some k" and "k < length (objects sc)"
  shows "computeColor sc ray i 1 ds = Inr (\<lparr>vx = Fin 0, vy = Fin 0, vz = Fin 0\<rparr>, ds)
         \<and> traceRay sc ray 1 ds
             = Inr (if object (closestIntersection sc ray) = None then background (camera sc)
                    else \<lparr>vx = Fin 0, vy = Fin 0, vz = Fin 0\<rparr>, ds)
         \<and> (\<forall>depth ds'. samples_needed (nat (depth - 1)) \<le> accepted_triples ds' \<longrightarrow>
               (\<exists>c rest. computeColor sc ray i depth ds' = Inr (c, rest)
                  \<and> accepted_triples ds'
                      \<le> accepted_triples rest + samples_needed (nat (depth - 1)))
               \<and> (\<exists>c rest. traceRay sc ray depth ds' = Inr (c, rest)
                  \<and> accepted_triples ds'
                      \<le> accepted_triples rest + samples_needed (nat (depth - 1))))"
proof -
  have base: "computeColor sc ray i 1 ds = Inr (\<lparr>vx = Fin 0, vy = Fin 0, vz = Fin 0\<rparr>, ds)"
    using assms by (simp add: computeColor_base)
  have trace: "traceRay sc ray 1 ds
             = Inr (if object (closestIntersection sc ray) = None then background (camera sc)
                    else \<lparr>vx = Fin 0, vy = Fin 0, vz = Fin 0\<rparr>, ds)"
  proof (cases "object (closestIntersection sc ray)")
    case None
    then show ?thesis by (simp add: traceRay_no_hit)
  next
    case (Some j)
    then have "j < length (objects sc)" by (rule closestIntersection_object_valid)
    with Some show ?thesis by (simp add: traceRay_hit computeColor_base)
  qed
  have "(\<exists>c rest. computeColor sc ray i depth ds' = Inr (c, rest)
            \<and> accepted_triples ds' \<le> accepted_triples rest + samples_needed (nat (depth - 1)))
        \<and> (\<exists>c rest. traceRay sc ray depth ds' = Inr (c, rest)
            \<and> accepted_triples ds' \<le> accepted_triples rest + samples_needed (nat (depth - 1)))"
    if "samples_needed (nat (depth - 1)) \<le> accepted_triples ds'" for depth ds'
  proof -
    have "depth \<le> int (nat (depth - 1)) + 1" by simp
    from returns_enough_draws [OF this that, of sc ray] assms
    have "returns_within (samples_needed (nat (depth - 1))) ds'
            (computeColor sc ray i depth ds')"
      and "returns_within (samples_needed (nat (depth - 1))) ds' (traceRay sc ray depth ds')"
      by blast+
    then show ?thesis unfolding returns_within_def by blast
  qed
  with base trace show ?thesis by blast
qed

theorem computeColor_depth_one_and_termination_witness:
  "computeColor shadow_scene cam_ray \<lparr>object = Some 0, tval = Fin 5\<rparr> 1 [1 / 2]
     = Inr (\<lparr>vx = Fin 0, vy = Fin 0, vz = Fin 0\<rparr>, [1 / 2])
   \<and> samples_needed (nat (2 - 1)) = 1
   \<and> accepted_triples [0, 0, 0, 1 / 2, 1 / 2, 1 / 2] = 1
   \<and> computeColor shadow_scene cam_ray \<lparr>object = Some 0, tval = Fin 5\<rparr> 2
         [0, 0, 0, 1 / 2, 1 / 2, 1 / 2]
     = Inr (\<lparr>vx = Fin 10, vy = Fin 20, vz = Fin 30\<rparr>, [])"
proof -
  have v: "object \<lparr>object = Some 0, tval = Fin 5\<rparr> = Some 0" "0 < length (objects shadow_scene)"
    by (simp_all add: shadow_objects)
  have n: "samples_needed (nat (2 - 1)) = 1" by simp
  have a: "accepted_triples [0, 0, 0, 1 / 2, 1 / 2, 1 / 2] = 1"
    by (simp add: accepts_half rejects_zero)
  from computeColor_depth_one_and_termination [OF v, of cam_ray "[1 / 2]"]
  have "computeColor shadow_scene cam_ray \<lparr>object = Some 0, tval = Fin 5\<rparr> 1 [1 / 2]
     = Inr (\<lparr>vx = Fin 0, vy = Fin 0, vz = Fin 0\<rparr>, [1 / 2])"
    by blast
  with n a floor_color_reject [of "[]"] show ?thesis by blast
qed

text \<open>
  C1, at a concrete input. The ray \<open>cam_ray\<close> meets the floor (diffuse 1, specular 0,
  ambient 1, colour \<open>(10, 20, 30)\<close>) at the origin, in the shadow of the ball: the sum over
  the lights is 0. The scattered ray is traced, and its colour is the background
  \<open>(100, 100, 100)\<close>. \<open>computeColor\<close> returns \<open>(10, 20, 30)\<close>, the colour of the floor
  times its ambient weight: the scattered colour is not part of it.
\<close>

theorem computeColor_drops_scatter_color:
  "lights_loop shadow_scene (Ray_at cam_ray (Fin 5)) 0
       (Primitive_normal floor_plane (Ray_at cam_ray (Fin 5))) = Fin 0
   \<and> Material_scatter shadow_scene cam_ray \<lparr>object = Some 0, tval = Fin 5\<rparr> 1
         [1 / 2, 1 / 2, 1 / 2]
       = Inr (\<lparr>vx = Fin 100, vy = Fin 100, vz = Fin 100\<rparr>, [])
   \<and> computeColor shadow_scene cam_ray \<lparr>object = Some 0, tval = Fin 5\<rparr> 2
         [1 / 2, 1 / 2, 1 / 2]
       = Inr (\<lparr>vx = Fin 10, vy = Fin 20, vz = Fin 30\<rparr>, [])
   \<and> Vector3_times (color (material floor_plane)) (ambient (material floor_plane))
       = \<lparr>vx = Fin 10, vy = Fin 20, vz = Fin 30\<rparr>"
  by (simp add: cam_point floor_lights_loop floor_scatter floor_color floor_material Fin_vec)

end
